theory Spec2Isabelle
  imports Main
begin

section \<open>Python values, truthiness and exceptions\<close>

text \<open>
  The client is dynamically typed Python 2. A value is \<open>None\<close>, a boolean, an integer,
  a string, a list, a dict with string keys (an association list in insertion order,
  read with \<open>map_of\<close>), or an instance of the class \<open>PushNotification\<close> with its three
  attributes \<open>text\<close>, \<open>sound\<close> and \<open>recipients\<close>. The instance is a value of its own
  because \<open>PushNotification.as_dict\<close> stores such instances in the dict it returns.
  Numbers are integers; strings are lists of 8-bit characters, so what follows speaks of
  ASCII text.
\<close>

datatype pyval =
    PNone
  | PBool bool
  | PInt int
  | PStr string
  | PList "pyval list"
  | PDict "(string \<times> pyval) list"
  | PushNotification pyval pyval pyval

text \<open>
  The exceptions the client can raise. \<open>LayerPlatformException\<close> carries
  \<open>message\<close>, \<open>http_code\<close>, \<open>code\<close> and \<open>error_id\<close>, in the order of its constructor.
  \<open>TransportError\<close> stands for whatever the HTTP library raises when no response arrives.
\<close>

datatype error =
    AttributeError
  | TypeError
  | ValueError
  | TransportError
  | LayerPlatformException pyval pyval pyval pyval

text \<open>Python's truth value of an object, as \<open>if x:\<close> and \<open>not x\<close> read it.\<close>

fun truthy :: "pyval \<Rightarrow> bool" where
  "truthy PNone = False"
| "truthy (PBool b) = b"
| "truthy (PInt i) = (i \<noteq> 0)"
| "truthy (PStr s) = (s \<noteq> [])"
| "truthy (PList xs) = (xs \<noteq> [])"
| "truthy (PDict kvs) = (kvs \<noteq> [])"
| "truthy (PushNotification t s r) = True"

text \<open>\<open>d.get(key)\<close> on a dict: the value, or \<open>None\<close> when the key is missing.\<close>

definition dict_get :: "(string \<times> pyval) list \<Rightarrow> string \<Rightarrow> pyval" where
  "dict_get kvs key = (case map_of kvs key of None \<Rightarrow> PNone | Some v \<Rightarrow> v)"

text \<open>\<open>x.get(key)\<close> on any value: only a dict has the method.\<close>

fun py_get :: "pyval \<Rightarrow> string \<Rightarrow> error + pyval" where
  "py_get (PDict kvs) key = Inr (dict_get kvs key)"
| "py_get v key = Inl AttributeError"

text \<open>\<open>d[key] = v\<close>: replaces the entry of an existing key, appends a new one.\<close>

fun dict_set :: "(string \<times> pyval) list \<Rightarrow> string \<Rightarrow> pyval \<Rightarrow> (string \<times> pyval) list" where
  "dict_set [] key v = [(key, v)]"
| "dict_set ((k, w) # kvs) key v =
     (if k = key then (k, v) # kvs else (k, w) # dict_set kvs key v)"

text \<open>\<open>for x in v\<close>: what iterating over a value yields, or the \<open>TypeError\<close> of a
  value that is not iterable. A dict yields its keys, a string its characters.\<close>

fun py_iter :: "pyval \<Rightarrow> error + pyval list" where
  "py_iter (PList xs) = Inr xs"
| "py_iter (PDict kvs) = Inr (map (\<lambda>kv. PStr (fst kv)) kvs)"
| "py_iter (PStr s) = Inr (map (\<lambda>c. PStr [c]) s)"
| "py_iter v = Inl TypeError"

section \<open>Strings\<close>

text \<open>\<open>s.split(sep)\<close> for a one-character separator: never empty, \<open>''.split('/') == ['']\<close>.\<close>

fun split :: "string \<Rightarrow> char \<Rightarrow> string list" where
  "split [] sep = [[]]"
| "split (c # cs) sep =
     (if c = sep then [] # split cs sep
      else (case split cs sep of [] \<Rightarrow> [[c]] | p # ps \<Rightarrow> (c # p) # ps))"

text \<open>\<open>sep.join(parts)\<close>.\<close>

fun join :: "string \<Rightarrow> string list \<Rightarrow> string" where
  "join sep [] = []"
| "join sep [p] = p"
| "join sep (p # q # ps) = p @ sep @ join sep (q # ps)"

section \<open>The library function \<open>urlparse\<close>\<close>

text \<open>
  \<open>BaseLayerResponse.uuid\<close> reads the \<open>path\<close> attribute of \<open>urlparse(self.id)\<close>. The
  function belongs to Python 2.7's standard library, not to the client; what follows is
  its algorithm as far as the path is concerned: a leading scheme is cut off at the first
  colon, a network location after \<open>//\<close>, then the fragment after \<open>#\<close>, the query after
  \<open>?\<close> and, for the schemes that use them, the parameters after \<open>;\<close> in the last
  path segment. A network location with an unmatched square bracket raises \<open>ValueError\<close>.
\<close>

definition scheme_chars :: string where
  "scheme_chars = ''abcdefghijklmnopqrstuvwxyzABCDEFGHIJKLMNOPQRSTUVWXYZ0123456789+-.''"

definition lower_char :: "char \<Rightarrow> char" where
  "lower_char c =
     (case map_of (zip ''ABCDEFGHIJKLMNOPQRSTUVWXYZ'' ''abcdefghijklmnopqrstuvwxyz'') c of
        None \<Rightarrow> c | Some d \<Rightarrow> d)"

definition uses_params :: "string list" where
  "uses_params = [''ftp'', ''hdl'', ''prospero'', ''http'', ''imap'', ''https'', ''shttp'',
     ''rtsp'', ''rtspu'', ''sip'', ''sips'', ''mms'', '''', ''sftp'', ''tel'']"

text \<open>\<open>s.split(c, 1)\<close> when \<open>c\<close> occurs in \<open>s\<close>: the text before and after its first
  occurrence.\<close>

definition split_once :: "char \<Rightarrow> string \<Rightarrow> string \<times> string" where
  "split_once c s = (takeWhile (\<lambda>x. x \<noteq> c) s, drop 1 (dropWhile (\<lambda>x. x \<noteq> c) s))"

text \<open>\<open>_splitnetloc(url, 2)\<close>: the network location runs from position 2 to the first
  of \<open>/\<close>, \<open>?\<close> and \<open>#\<close>.\<close>

definition splitnetloc :: "string \<Rightarrow> string \<times> string" where
  "splitnetloc url =
     (takeWhile (\<lambda>x. \<not> List.member ''/?#'' x) (drop 2 url),
      dropWhile (\<lambda>x. \<not> List.member ''/?#'' x) (drop 2 url))"

text \<open>The part of \<open>urlsplit\<close> after the scheme is settled; the result is
  (scheme, netloc, path, query, fragment).\<close>

definition split_rest ::
  "string \<Rightarrow> string \<Rightarrow> error + (string \<times> string \<times> string \<times> string \<times> string)" where
  "split_rest scheme url =
     (let (netloc, url1) = (if take 2 url = ''//'' then splitnetloc url else ('''', url)) in
      if (List.member netloc CHR ''['' \<and> \<not> List.member netloc CHR '']'')
         \<or> (List.member netloc CHR '']'' \<and> \<not> List.member netloc CHR ''['')
      then Inl ValueError
      else
        let (url2, fragment) =
              (if List.member url1 CHR ''#'' then split_once CHR ''#'' url1 else (url1, ''''));
            (url3, query) =
              (if List.member url2 CHR ''?'' then split_once CHR ''?'' url2 else (url2, ''''))
        in Inr (scheme, netloc, url3, query, fragment))"

definition urlsplit ::
  "string \<Rightarrow> error + (string \<times> string \<times> string \<times> string \<times> string)" where
  "urlsplit url =
     (let i = length (takeWhile (\<lambda>x. x \<noteq> CHR '':'') url) in
      if List.member url CHR '':'' \<and> 0 < i then
        if take i url = ''http'' then split_rest ''http'' (drop (i + 1) url)
        else if list_all (List.member scheme_chars) (take i url) then
          (let rest = drop (i + 1) url in
           if rest = [] \<or> list_ex (\<lambda>x. \<not> List.member ''0123456789'' x) rest
           then split_rest (map lower_char (take i url)) rest
           else split_rest '''' url)
        else split_rest '''' url
      else split_rest '''' url)"

text \<open>\<open>_splitparams(url)[0]\<close>: the path without the parameters of its last segment.\<close>

definition splitparams :: "string \<Rightarrow> string" where
  "splitparams url =
     (if List.member url CHR ''/'' then
        (let last_seg = last (split url CHR ''/'');
             before = take (length url - length last_seg) url
         in if List.member last_seg CHR '';''
            then before @ takeWhile (\<lambda>x. x \<noteq> CHR '';'') last_seg
            else url)
      else takeWhile (\<lambda>x. x \<noteq> CHR '';'') url)"

definition urlparse_path :: "string \<Rightarrow> error + string" where
  "urlparse_path url =
     (case urlsplit url of
        Inl e \<Rightarrow> Inl e
      | Inr (scheme, netloc, path, query, fragment) \<Rightarrow>
          if List.member uses_params scheme \<and> List.member path CHR '';''
          then Inr (splitparams path) else Inr path)"

section \<open>\<open>BaseLayerResponse.uuid\<close>\<close>

text \<open>
  \<open>uuid\<close> takes the entity's \<open>id\<close> attribute. \<open>urlparse\<close> of anything but a string
  raises \<open>AttributeError\<close> (it calls \<open>url.find\<close>); an entity decoded from a JSON object
  without \<open>id\<close> has \<open>None\<close> there.
\<close>

definition uuid_of_path :: "string \<Rightarrow> pyval" where
  "uuid_of_path path =
     (let path_parts = split path CHR ''/'' in
      if length path_parts = 3 \<and> length (path_parts ! 2) = 36
      then PStr (path_parts ! 2)
      else PNone)"

fun uuid :: "pyval \<Rightarrow> error + pyval" where
  "uuid (PStr s) =
     (case urlparse_path s of Inl e \<Rightarrow> Inl e | Inr path \<Rightarrow> Inr (uuid_of_path path))"
| "uuid v = Inl AttributeError"

text \<open>
  The segments of a URI path, as the specification counts them: the pieces between the
  slashes, not counting the empty piece in front of a leading slash. \<open>/a/b\<close> has the two
  segments \<open>a\<close> and \<open>b\<close>, the rootless path \<open>x/a/b\<close> has three.
\<close>

definition path_segments :: "string \<Rightarrow> string list" where
  "path_segments path =
     (case path of
        [] \<Rightarrow> []
      | c # cs \<Rightarrow> if c = CHR ''/'' then split cs CHR ''/'' else split path CHR ''/'')"

section \<open>Entities and their codecs\<close>

text \<open>
  Each class is a record of its attributes; an attribute holds whatever value the
  constructor was given. The date parser \<open>dateutil.parser.parse\<close> is a library function:
  the decoders take it as the parameter \<open>parse\<close>, which returns a value or raises.
\<close>

record Sender =
  sender_id :: pyval
  sender_name :: pyval

record MessagePart =
  part_body :: pyval
  part_mime_type :: pyval
  part_encoding :: pyval

record Conversation =
  conv_id :: pyval
  conv_url :: pyval
  conv_messages_url :: pyval
  conv_created_at :: pyval
  conv_participants :: pyval
  conv_distinct :: pyval
  conv_metadata :: pyval

record Message =
  msg_id :: pyval
  msg_url :: pyval
  msg_sent_at :: pyval
  msg_sender :: "Sender option"
  msg_conversation :: Conversation
  msg_parts :: "MessagePart list"
  msg_recipient_status :: pyval

record Announcement =
  ann_id :: pyval
  ann_url :: pyval
  ann_sent_at :: pyval
  ann_recipients :: pyval
  ann_sender :: "Sender option"
  ann_parts :: "MessagePart list"

definition MIME_TEXT_PLAIN :: string where
  "MIME_TEXT_PLAIN = ''text/plain''"

text \<open>A list comprehension whose body may raise: the first exception ends it.\<close>

fun map_raise :: "('a \<Rightarrow> error + 'b) \<Rightarrow> 'a list \<Rightarrow> error + 'b list" where
  "map_raise f [] = Inr []"
| "map_raise f (x # xs) =
     (case f x of
        Inl e \<Rightarrow> Inl e
      | Inr y \<Rightarrow> (case map_raise f xs of Inl e \<Rightarrow> Inl e | Inr ys \<Rightarrow> Inr (y # ys)))"

text \<open>\<open>BaseLayerResponse.parse_date\<close>.\<close>

definition parse_date :: "(pyval \<Rightarrow> error + pyval) \<Rightarrow> pyval \<Rightarrow> error + pyval" where
  "parse_date parse date = (if \<not> truthy date then Inr PNone else parse date)"

text \<open>\<open>Sender.from_dict\<close> returns \<open>None\<close> for a falsy argument, before any attribute of
  it is read.\<close>

definition Sender_from_dict :: "pyval \<Rightarrow> error + Sender option" where
  "Sender_from_dict json =
     (if \<not> truthy json then Inr None
      else (case json of
              PDict d \<Rightarrow>
                Inr (Some \<lparr>sender_id = dict_get d ''id'', sender_name = dict_get d ''name''\<rparr>)
            | _ \<Rightarrow> Inl AttributeError))"

text \<open>\<open>Sender.as_dict\<close>.\<close>

definition Sender_as_dict :: "Sender \<Rightarrow> (string \<times> pyval) list" where
  "Sender_as_dict self =
     (if truthy (sender_id self) then [(''user_id'', sender_id self)]
      else [(''name'', sender_name self)])"

text \<open>\<open>MessagePart.__init__(body, mime=MIME_TEXT_PLAIN, encoding=None)\<close>: an argument
  that the caller leaves out is \<open>None\<close> here and takes its default.\<close>

definition MessagePart_init :: "pyval \<Rightarrow> pyval option \<Rightarrow> pyval option \<Rightarrow> MessagePart" where
  "MessagePart_init body mime encoding =
     \<lparr>part_body = body,
      part_mime_type = (case mime of None \<Rightarrow> PStr MIME_TEXT_PLAIN | Some m \<Rightarrow> m),
      part_encoding = (case encoding of None \<Rightarrow> PNone | Some e \<Rightarrow> e)\<rparr>"

text \<open>\<open>MessagePart.from_dict\<close> passes all three arguments, each the result of \<open>get\<close>.\<close>

fun MessagePart_from_dict :: "pyval \<Rightarrow> error + MessagePart" where
  "MessagePart_from_dict (PDict d) =
     Inr (MessagePart_init (dict_get d ''body'') (Some (dict_get d ''mime_type''))
            (Some (dict_get d ''encoding'')))"
| "MessagePart_from_dict v = Inl AttributeError"

text \<open>\<open>MessagePart.as_dict\<close>.\<close>

definition MessagePart_as_dict :: "MessagePart \<Rightarrow> (string \<times> pyval) list" where
  "MessagePart_as_dict self =
     (let data = [(''body'', part_body self), (''mime_type'', part_mime_type self)] in
      if truthy (part_encoding self) then dict_set data ''encoding'' (part_encoding self)
      else data)"

text \<open>\<open>Conversation.from_dict\<close>: the first thing it does is \<open>dict_data.get\<close>.\<close>

fun Conversation_from_dict :: "(pyval \<Rightarrow> error + pyval) \<Rightarrow> pyval \<Rightarrow> error + Conversation" where
  "Conversation_from_dict parse (PDict d) =
     (case (if truthy (dict_get d ''created_at'') then parse (dict_get d ''created_at'')
            else Inr PNone) of
        Inl e \<Rightarrow> Inl e
      | Inr created_at \<Rightarrow>
          Inr \<lparr>conv_id = dict_get d ''id'',
               conv_url = dict_get d ''url'',
               conv_messages_url = dict_get d ''messages_url'',
               conv_created_at = created_at,
               conv_participants = dict_get d ''participants'',
               conv_distinct = dict_get d ''distinct'',
               conv_metadata = dict_get d ''metadata''\<rparr>)"
| "Conversation_from_dict parse v = Inl AttributeError"

text \<open>The comprehension \<open>[MessagePart.from_dict(part) for part in dict_data.get('parts')]\<close>.\<close>

definition parts_from :: "pyval \<Rightarrow> error + MessagePart list" where
  "parts_from v =
     (case py_iter v of Inl e \<Rightarrow> Inl e | Inr xs \<Rightarrow> map_raise MessagePart_from_dict xs)"

text \<open>\<open>Message.from_dict\<close>: the arguments of the constructor are evaluated from left to
  right, so the first one that raises decides the exception.\<close>

fun Message_from_dict :: "(pyval \<Rightarrow> error + pyval) \<Rightarrow> pyval \<Rightarrow> error + Message" where
  "Message_from_dict parse (PDict d) =
     (case parse_date parse (dict_get d ''sent_at'') of
        Inl e \<Rightarrow> Inl e
      | Inr sent_at \<Rightarrow>
     (case Sender_from_dict (dict_get d ''sender'') of
        Inl e \<Rightarrow> Inl e
      | Inr sender \<Rightarrow>
     (case Conversation_from_dict parse (dict_get d ''conversation'') of
        Inl e \<Rightarrow> Inl e
      | Inr conversation \<Rightarrow>
     (case parts_from (dict_get d ''parts'') of
        Inl e \<Rightarrow> Inl e
      | Inr parts \<Rightarrow>
          Inr \<lparr>msg_id = dict_get d ''id'',
               msg_url = dict_get d ''url'',
               msg_sent_at = sent_at,
               msg_sender = sender,
               msg_conversation = conversation,
               msg_parts = parts,
               msg_recipient_status = dict_get d ''recipient_status''\<rparr>))))"
| "Message_from_dict parse v = Inl AttributeError"

text \<open>\<open>Announcement.from_dict\<close>.\<close>

fun Announcement_from_dict :: "(pyval \<Rightarrow> error + pyval) \<Rightarrow> pyval \<Rightarrow> error + Announcement" where
  "Announcement_from_dict parse (PDict d) =
     (case parse_date parse (dict_get d ''sent_at'') of
        Inl e \<Rightarrow> Inl e
      | Inr sent_at \<Rightarrow>
     (case Sender_from_dict (dict_get d ''sender'') of
        Inl e \<Rightarrow> Inl e
      | Inr sender \<Rightarrow>
     (case parts_from (dict_get d ''parts'') of
        Inl e \<Rightarrow> Inl e
      | Inr parts \<Rightarrow>
          Inr \<lparr>ann_id = dict_get d ''id'',
               ann_url = dict_get d ''url'',
               ann_sent_at = sent_at,
               ann_recipients = dict_get d ''recipients'',
               ann_sender = sender,
               ann_parts = parts\<rparr>)))"
| "Announcement_from_dict parse v = Inl AttributeError"

text \<open>
  \<open>PushNotification.as_dict\<close>. The loop over \<open>self.recipients.iteritems()\<close> fills the
  local \<open>recipients_dict\<close> with a \<open>{'text', 'sound'}\<close> dict per recipient; it needs a dict
  whose values have the attributes \<open>text\<close> and \<open>sound\<close>. The method then stores
  \<open>self.recipients\<close> under \<open>'recipients'\<close>, as line 479 of the source has it.
\<close>

fun reduce_recipients ::
  "(string \<times> pyval) list \<Rightarrow> (string \<times> pyval) list \<Rightarrow> error + (string \<times> pyval) list" where
  "reduce_recipients [] recipients_dict = Inr recipients_dict"
| "reduce_recipients ((recipient, PushNotification t s r) # rest) recipients_dict =
     reduce_recipients rest
       (dict_set recipients_dict recipient (PDict [(''text'', t), (''sound'', s)]))"
| "reduce_recipients ((recipient, v) # rest) recipients_dict = Inl AttributeError"

fun iteritems :: "pyval \<Rightarrow> error + (string \<times> pyval) list" where
  "iteritems (PDict kvs) = Inr kvs"
| "iteritems v = Inl AttributeError"

fun PushNotification_as_dict :: "pyval \<Rightarrow> error + (string \<times> pyval) list" where
  "PushNotification_as_dict (PushNotification text sound recipients) =
     (let data0 = [(''text'', text)];
          data = (if truthy sound then dict_set data0 ''sound'' sound else data0)
      in if truthy recipients then
           (case iteritems recipients of
              Inl e \<Rightarrow> Inl e
            | Inr items \<Rightarrow>
                (case reduce_recipients items [] of
                   Inl e \<Rightarrow> Inl e
                 | Inr recipients_dict \<Rightarrow> Inr (dict_set data ''recipients'' recipients)))
         else Inr data)"
| "PushNotification_as_dict v = Inl AttributeError"

text \<open>
  The encoding the specification describes, for comparison: the same method with the
  reduced \<open>recipients_dict\<close> stored under \<open>'recipients'\<close>.
\<close>

fun PushNotification_as_dict_spec :: "pyval \<Rightarrow> error + (string \<times> pyval) list" where
  "PushNotification_as_dict_spec (PushNotification text sound recipients) =
     (let data0 = [(''text'', text)];
          data = (if truthy sound then dict_set data0 ''sound'' sound else data0)
      in if truthy recipients then
           (case iteritems recipients of
              Inl e \<Rightarrow> Inl e
            | Inr items \<Rightarrow>
                (case reduce_recipients items [] of
                   Inl e \<Rightarrow> Inl e
                 | Inr recipients_dict \<Rightarrow>
                     Inr (dict_set data ''recipients'' (PDict recipients_dict))))
         else Inr data)"
| "PushNotification_as_dict_spec v = Inl AttributeError"

section \<open>The platform client\<close>

text \<open>
  The network is explicit: a request is what \<open>requests.request\<close> is called with, a
  response is what it returns, read through \<open>ok\<close>, \<open>status_code\<close>, \<open>text\<close> and
  \<open>json()\<close>. The JSON parser is the library's: \<open>resp_json\<close> is the value \<open>json()\<close>
  returns, or \<open>None\<close> when it raises \<open>ValueError\<close> because the body is not JSON.
  The transport maps a request to a response or to the exception it raises, and every
  operation threads the log of the requests issued so far.
\<close>

record PlatformClient =
  app_uuid :: string
  bearer_token :: string

record request =
  req_method :: string
  req_url :: string
  req_headers :: "(string \<times> string) list"
  req_data :: "pyval option"

record response =
  resp_ok :: bool
  resp_status_code :: int
  resp_text :: string
  resp_json :: "pyval option"

type_synonym transport = "request \<Rightarrow> error + response"

definition METHOD_GET :: string where
  "METHOD_GET = ''GET''"

definition METHOD_POST :: string where
  "METHOD_POST = ''POST''"

definition METHOD_DELETE :: string where
  "METHOD_DELETE = ''DELETE''"

definition LAYER_URI_ANNOUNCEMENTS :: string where
  "LAYER_URI_ANNOUNCEMENTS = ''announcements''"

definition LAYER_URI_CONVERSATIONS :: string where
  "LAYER_URI_CONVERSATIONS = ''conversations''"

definition LAYER_URI_MESSAGES :: string where
  "LAYER_URI_MESSAGES = ''messages''"

text \<open>
  \<open>json.dumps\<close> raises \<open>TypeError\<close> on an object that is not JSON serializable, such
  as an instance of a class. The request carries the serialized document as the value
  it encodes.
\<close>

fun json_serializable :: "pyval \<Rightarrow> bool" where
  "json_serializable (PList xs) = list_all json_serializable xs"
| "json_serializable (PDict kvs) = list_all json_serializable (map snd kvs)"
| "json_serializable (PushNotification t s r) = False"
| "json_serializable v = True"

definition get_layer_headers :: "PlatformClient \<Rightarrow> (string \<times> string) list" where
  "get_layer_headers self =
     [(''Accept'', ''application/vnd.layer+json; version=1.0''),
      (''Authorization'', ''Bearer '' @ bearer_token self),
      (''Content-Type'', ''application/json'')]"

text \<open>\<open>'/'.join(suffixes)\<close> raises \<open>TypeError\<close> on an item that is not a string.\<close>

fun strings_of :: "pyval list \<Rightarrow> error + string list" where
  "strings_of [] = Inr []"
| "strings_of (PStr s # vs) =
     (case strings_of vs of Inl e \<Rightarrow> Inl e | Inr ss \<Rightarrow> Inr (s # ss))"
| "strings_of (v # vs) = Inl TypeError"

definition get_layer_uri :: "PlatformClient \<Rightarrow> pyval list \<Rightarrow> error + string" where
  "get_layer_uri self suffixes =
     (case (if suffixes \<noteq> []
            then (case strings_of suffixes of Inl e \<Rightarrow> Inl e | Inr ss \<Rightarrow> Inr (join ''/'' ss))
            else Inr []) of
        Inl e \<Rightarrow> Inl e
      | Inr suffix_string \<Rightarrow>
          Inr (''https://api.layer.com/apps/'' @ app_uuid self @ ''/'' @ suffix_string))"

text \<open>
  \<open>PlatformClient._raw_request\<close>. The body is serialized before the call; the call
  appends the request to the log; the response is then classified.
\<close>

definition raw_request ::
  "PlatformClient \<Rightarrow> transport \<Rightarrow> string \<Rightarrow> string \<Rightarrow> pyval \<Rightarrow> request list
     \<Rightarrow> (error + pyval) \<times> request list" where
  "raw_request self transport method url data log =
     (if truthy data \<and> \<not> json_serializable data then (Inl TypeError, log)
      else
        (let req = \<lparr>req_method = method, req_url = url,
                     req_headers = get_layer_headers self,
                     req_data = (if truthy data then Some data else None)\<rparr>;
             log' = log @ [req]
         in case transport req of
              Inl e \<Rightarrow> (Inl e, log')
            | Inr result \<Rightarrow>
                if resp_ok result then
                  (case resp_json result of
                     None \<Rightarrow> (Inl ValueError, log')
                   | Some j \<Rightarrow> (Inr j, log'))
                else
                  (case resp_json result of
                     None \<Rightarrow>
                       (Inl (LayerPlatformException (PStr (resp_text result))
                               (PInt (resp_status_code result)) PNone PNone), log')
                   | Some err \<Rightarrow>
                       (case py_get err ''message'' of
                          Inl e \<Rightarrow> (Inl e, log')
                        | Inr message \<Rightarrow>
                       (case py_get err ''code'' of
                          Inl e \<Rightarrow> (Inl e, log')
                        | Inr code \<Rightarrow>
                       (case py_get err ''id'' of
                          Inl e \<Rightarrow> (Inl e, log')
                        | Inr error_id \<Rightarrow>
                            (Inl (LayerPlatformException message
                                    (PInt (resp_status_code result)) code error_id),
                             log')))))))"

text \<open>\<open>PlatformClient.get_conversation\<close>.\<close>

definition get_conversation ::
  "PlatformClient \<Rightarrow> transport \<Rightarrow> (pyval \<Rightarrow> error + pyval) \<Rightarrow> pyval \<Rightarrow> request list
     \<Rightarrow> (error + Conversation) \<times> request list" where
  "get_conversation self transport parse conversation_uuid log =
     (case get_layer_uri self [PStr LAYER_URI_CONVERSATIONS, conversation_uuid] of
        Inl e \<Rightarrow> (Inl e, log)
      | Inr url \<Rightarrow>
          (case raw_request self transport METHOD_GET url PNone log of
             (Inl e, log') \<Rightarrow> (Inl e, log')
           | (Inr j, log') \<Rightarrow> (Conversation_from_dict parse j, log')))"

text \<open>\<open>PlatformClient.delete_conversation\<close> returns nothing, that is \<open>None\<close>.\<close>

definition delete_conversation ::
  "PlatformClient \<Rightarrow> transport \<Rightarrow> pyval \<Rightarrow> request list \<Rightarrow> (error + pyval) \<times> request list" where
  "delete_conversation self transport conversation_uuid log =
     (case get_layer_uri self [PStr LAYER_URI_CONVERSATIONS, conversation_uuid] of
        Inl e \<Rightarrow> (Inl e, log)
      | Inr url \<Rightarrow>
          (case raw_request self transport METHOD_DELETE url PNone log of
             (Inl e, log') \<Rightarrow> (Inl e, log')
           | (Inr j, log') \<Rightarrow> (Inr PNone, log')))"

text \<open>\<open>PlatformClient.create_conversation\<close>; its parameter \<open>distinct\<close> is
  \<open>distinct_flag\<close> here.\<close>

definition create_conversation ::
  "PlatformClient \<Rightarrow> transport \<Rightarrow> (pyval \<Rightarrow> error + pyval) \<Rightarrow> pyval \<Rightarrow> pyval \<Rightarrow> pyval
     \<Rightarrow> request list \<Rightarrow> (error + Conversation) \<times> request list" where
  "create_conversation self transport parse participants distinct_flag metadata log =
     (case get_layer_uri self [PStr LAYER_URI_CONVERSATIONS] of
        Inl e \<Rightarrow> (Inl e, log)
      | Inr url \<Rightarrow>
          (case raw_request self transport METHOD_POST url
                  (PDict [(''participants'', participants), (''distinct'', distinct_flag),
                          (''metadata'', metadata)]) log of
             (Inl e, log') \<Rightarrow> (Inl e, log')
           | (Inr j, log') \<Rightarrow> (Conversation_from_dict parse j, log')))"

text \<open>
  The optional notification of \<open>send_message\<close> and \<open>send_announcement\<close>:
  \<open>if notification: request_data['notification'] = notification.as_dict()\<close>.
\<close>

definition add_notification ::
  "(string \<times> pyval) list \<Rightarrow> pyval \<Rightarrow> error + (string \<times> pyval) list" where
  "add_notification request_data notification =
     (if truthy notification then
        (case PushNotification_as_dict notification of
           Inl e \<Rightarrow> Inl e
         | Inr d \<Rightarrow> Inr (dict_set request_data ''notification'' (PDict d)))
      else Inr request_data)"

text \<open>The request body of \<open>send_message\<close>, lines 230 to 237.\<close>

definition message_request_data ::
  "Sender \<Rightarrow> MessagePart list \<Rightarrow> pyval \<Rightarrow> error + (string \<times> pyval) list" where
  "message_request_data sender message_parts notification =
     add_notification
       [(''sender'', PDict (Sender_as_dict sender)),
        (''parts'', PList (map (\<lambda>part. PDict (MessagePart_as_dict part)) message_parts))]
       notification"

text \<open>
  \<open>PlatformClient.send_message\<close>. An instance of \<open>Conversation\<close> or \<open>Sender\<close> is always
  true, so \<open>not conversation\<close> holds for \<open>None\<close> only; \<open>not message_parts\<close> holds for
  \<open>None\<close> and for the empty list.
\<close>

definition send_message ::
  "PlatformClient \<Rightarrow> transport \<Rightarrow> (pyval \<Rightarrow> error + pyval) \<Rightarrow> Conversation option
     \<Rightarrow> Sender option \<Rightarrow> MessagePart list option \<Rightarrow> pyval \<Rightarrow> request list
     \<Rightarrow> (error + Message option) \<times> request list" where
  "send_message self transport parse conversation sender message_parts notification log =
     (case (conversation, sender, message_parts) of
        (Some c, Some s, Some (p # ps)) \<Rightarrow>
          (case message_request_data s (p # ps) notification of
             Inl e \<Rightarrow> (Inl e, log)
           | Inr request_data \<Rightarrow>
          (case uuid (conv_id c) of
             Inl e \<Rightarrow> (Inl e, log)
           | Inr u \<Rightarrow>
          (case get_layer_uri self
                  [PStr LAYER_URI_CONVERSATIONS, u, PStr LAYER_URI_MESSAGES] of
             Inl e \<Rightarrow> (Inl e, log)
           | Inr url \<Rightarrow>
          (case raw_request self transport METHOD_POST url (PDict request_data) log of
             (Inl e, log') \<Rightarrow> (Inl e, log')
           | (Inr j, log') \<Rightarrow>
               (case Message_from_dict parse j of
                  Inl e \<Rightarrow> (Inl e, log')
                | Inr m \<Rightarrow> (Inr (Some m), log'))))))
      | _ \<Rightarrow> (Inr None, log))"

text \<open>The request body of \<open>send_announcement\<close>, lines 263 to 273: \<open>sender.name\<close> needs
  an object, the comprehension over \<open>message_parts\<close> a list.\<close>

definition announcement_request_data ::
  "Sender option \<Rightarrow> pyval \<Rightarrow> MessagePart list option \<Rightarrow> pyval
     \<Rightarrow> error + (string \<times> pyval) list" where
  "announcement_request_data sender recipients message_parts notification =
     (case sender of
        None \<Rightarrow> Inl AttributeError
      | Some s \<Rightarrow>
          (case message_parts of
             None \<Rightarrow> Inl TypeError
           | Some ps \<Rightarrow>
               add_notification
                 [(''sender'', PDict [(''name'', sender_name s)]),
                  (''parts'', PList (map (\<lambda>part. PDict (MessagePart_as_dict part)) ps)),
                  (''recipients'', recipients)]
                 notification))"

text \<open>\<open>PlatformClient.send_announcement\<close>.\<close>

definition send_announcement ::
  "PlatformClient \<Rightarrow> transport \<Rightarrow> (pyval \<Rightarrow> error + pyval) \<Rightarrow> Sender option \<Rightarrow> pyval
     \<Rightarrow> MessagePart list option \<Rightarrow> pyval \<Rightarrow> request list
     \<Rightarrow> (error + Announcement) \<times> request list" where
  "send_announcement self transport parse sender recipients message_parts notification log =
     (case announcement_request_data sender recipients message_parts notification of
        Inl e \<Rightarrow> (Inl e, log)
      | Inr request_data \<Rightarrow>
     (case get_layer_uri self [PStr LAYER_URI_ANNOUNCEMENTS] of
        Inl e \<Rightarrow> (Inl e, log)
      | Inr url \<Rightarrow>
     (case raw_request self transport METHOD_POST url (PDict request_data) log of
        (Inl e, log') \<Rightarrow> (Inl e, log')
      | (Inr j, log') \<Rightarrow> (Announcement_from_dict parse j, log'))))"

section \<open>Auxiliary facts\<close>

lemma split_not_Nil: "split s c \<noteq> []"
  by (induction s) (auto split: list.splits)

lemma split_leading: "split (c # rest) c = [] # split rest c"
  by simp

lemma third_is_last: "length xs = 3 \<Longrightarrow> xs ! 2 = last xs"
  by (cases xs rule: rev_cases) (auto simp: nth_append)

lemma uuid_of_path_last:
  "uuid_of_path path =
     (if length (split path CHR ''/'') = 3 \<and> length (last (split path CHR ''/'')) = 36
      then PStr (last (split path CHR ''/'')) else PNone)"
proof (cases "length (split path CHR ''/'') = 3")
  case True
  then show ?thesis by (simp add: uuid_of_path_def Let_def third_is_last)
next
  case False
  then show ?thesis by (simp add: uuid_of_path_def Let_def)
qed

lemma segments_rooted: "path_segments (CHR ''/'' # rest) = split rest CHR ''/''"
  by (simp add: path_segments_def)

lemma uuid_of_path_rooted:
  "uuid_of_path (CHR ''/'' # rest) =
     (if length (path_segments (CHR ''/'' # rest)) = 2
         \<and> length (last (path_segments (CHR ''/'' # rest))) = 36
      then PStr (last (path_segments (CHR ''/'' # rest))) else PNone)"
  unfolding uuid_of_path_last segments_rooted split_leading
  using split_not_Nil [of rest "CHR ''/''"] by simp

lemma map_of_dict_set: "map_of (dict_set kvs k v) = (map_of kvs)(k \<mapsto> v)"
  by (induction kvs k v rule: dict_set.induct) auto

lemma dict_set_not_Nil: "dict_set kvs k v \<noteq> []"
  by (cases kvs) (auto split: if_splits)

lemma add_notification_keeps:
  assumes "add_notification rd n = Inr d" and "k \<noteq> ''notification''"
  shows "map_of d k = map_of rd k"
  using assms
  by (auto simp: add_notification_def map_of_dict_set split: if_splits sum.splits)

lemma add_notification_not_Nil:
  assumes "add_notification rd n = Inr d" and "rd \<noteq> []"
  shows "d \<noteq> []"
  using assms
  by (auto simp: add_notification_def dict_set_not_Nil split: if_splits sum.splits)

lemma raw_request_response:
  assumes "\<not> truthy data \<or> json_serializable data"
    and "transport \<lparr>req_method = method, req_url = url, req_headers = get_layer_headers self,
                    req_data = (if truthy data then Some data else None)\<rparr> = Inr result"
  shows "raw_request self transport method url data log =
     ((if resp_ok result then
         (case resp_json result of None \<Rightarrow> Inl ValueError | Some j \<Rightarrow> Inr j)
       else
         (case resp_json result of
            None \<Rightarrow> Inl (LayerPlatformException (PStr (resp_text result))
                          (PInt (resp_status_code result)) PNone PNone)
          | Some (PDict err) \<Rightarrow>
              Inl (LayerPlatformException (dict_get err ''message'')
                     (PInt (resp_status_code result)) (dict_get err ''code'')
                     (dict_get err ''id''))
          | Some _ \<Rightarrow> Inl AttributeError)),
      log @ [\<lparr>req_method = method, req_url = url, req_headers = get_layer_headers self,
               req_data = (if truthy data then Some data else None)\<rparr>])"
  using assms
  by (auto simp: raw_request_def Let_def split: option.splits pyval.splits)

lemma raw_request_log:
  "snd (raw_request self transport method url data log) =
     (if truthy data \<and> \<not> json_serializable data then log
      else log @ [\<lparr>req_method = method, req_url = url, req_headers = get_layer_headers self,
                    req_data = (if truthy data then Some data else None)\<rparr>])"
  by (auto simp: raw_request_def Let_def split: option.splits sum.splits pyval.splits)

lemma messages_uri:
  "get_layer_uri self [PStr LAYER_URI_CONVERSATIONS, PStr u, PStr LAYER_URI_MESSAGES]
     = Inr (''https://api.layer.com/apps/'' @ app_uuid self @ ''/conversations/'' @ u
            @ ''/messages'')"
  by (simp add: get_layer_uri_def LAYER_URI_CONVERSATIONS_def LAYER_URI_MESSAGES_def)

lemma conversation_uri:
  "get_layer_uri self [PStr LAYER_URI_CONVERSATIONS, PStr u]
     = Inr (''https://api.layer.com/apps/'' @ app_uuid self @ ''/conversations/'' @ u)"
  by (simp add: get_layer_uri_def LAYER_URI_CONVERSATIONS_def)

lemma announcements_uri:
  "get_layer_uri self [PStr LAYER_URI_ANNOUNCEMENTS]
     = Inr (''https://api.layer.com/apps/'' @ app_uuid self @ ''/announcements'')"
  by (simp add: get_layer_uri_def LAYER_URI_ANNOUNCEMENTS_def)

lemma message_request_data_not_Nil:
  "message_request_data s ps n = Inr d \<Longrightarrow> d \<noteq> []"
  unfolding message_request_data_def by (erule add_notification_not_Nil) simp

lemma send_message_guard:
  "conversation = None \<or> sender = None \<or> message_parts = None \<or> message_parts = Some [] \<Longrightarrow>
     send_message self transport parse conversation sender message_parts notification log
       = (Inr None, log)"
  by (elim disjE) (simp_all add: send_message_def split: option.splits list.splits)

lemma send_message_posts:
  assumes "uuid (conv_id c) = Inr (PStr u)"
    and "message_request_data s (p # ps) notification = Inr d"
    and "json_serializable (PDict d)"
  shows "snd (send_message self transport parse (Some c) (Some s) (Some (p # ps)) notification log)
     = log @ [\<lparr>req_method = ''POST'',
                req_url = ''https://api.layer.com/apps/'' @ app_uuid self @ ''/conversations/''
                          @ u @ ''/messages'',
                req_headers = get_layer_headers self,
                req_data = Some (PDict d)\<rparr>]"
proof -
  have ne: "d \<noteq> []" using assms(2) by (rule message_request_data_not_Nil)
  let ?url = "''https://api.layer.com/apps/'' @ app_uuid self @ ''/conversations/'' @ u
                @ ''/messages''"
  have l: "snd (raw_request self transport METHOD_POST ?url (PDict d) log)
     = log @ [\<lparr>req_method = ''POST'', req_url = ?url, req_headers = get_layer_headers self,
                req_data = Some (PDict d)\<rparr>]"
    using ne assms(3) by (simp add: raw_request_log METHOD_POST_def)
  obtain r log' where r: "raw_request self transport METHOD_POST ?url (PDict d) log = (r, log')"
    by (cases "raw_request self transport METHOD_POST ?url (PDict d) log")
  with l have log': "log' = log @ [\<lparr>req_method = ''POST'', req_url = ?url,
      req_headers = get_layer_headers self, req_data = Some (PDict d)\<rparr>]"
    by simp
  show ?thesis
    using assms(1,2) r log'
    by (simp add: send_message_def messages_uri split: sum.splits)
qed

lemma announcement_request_data_sender:
  assumes "announcement_request_data sender recipients message_parts notification = Inr d"
  shows "\<exists>s. sender = Some s \<and> map_of d ''sender'' = Some (PDict [(''name'', sender_name s)])
              \<and> map_of d ''user_id'' = None \<and> d \<noteq> []"
proof -
  from assms obtain s ps where s: "sender = Some s" and ps: "message_parts = Some ps"
    and a: "add_notification
                 [(''sender'', PDict [(''name'', sender_name s)]),
                  (''parts'', PList (map (\<lambda>part. PDict (MessagePart_as_dict part)) ps)),
                  (''recipients'', recipients)]
                 notification = Inr d"
    by (auto simp: announcement_request_data_def split: option.splits)
  have "map_of d ''sender'' = Some (PDict [(''name'', sender_name s)])"
    using add_notification_keeps [OF a, of "''sender''"] by simp
  moreover have "map_of d ''user_id'' = None"
    using add_notification_keeps [OF a, of "''user_id''"] by simp
  moreover have "d \<noteq> []" using a by (rule add_notification_not_Nil) simp
  ultimately show ?thesis using s by blast
qed

lemma send_announcement_log:
  "snd (send_announcement self transport parse sender recipients message_parts notification log)
     = (case announcement_request_data sender recipients message_parts notification of
          Inl e \<Rightarrow> log
        | Inr d \<Rightarrow>
            if json_serializable (PDict d) then
              log @ [\<lparr>req_method = ''POST'',
                       req_url = ''https://api.layer.com/apps/'' @ app_uuid self
                                 @ ''/announcements'',
                       req_headers = get_layer_headers self,
                       req_data = Some (PDict d)\<rparr>]
            else log)"
proof (cases "announcement_request_data sender recipients message_parts notification")
  case (Inl e)
  then show ?thesis by (simp add: send_announcement_def)
next
  case (Inr d)
  let ?url = "''https://api.layer.com/apps/'' @ app_uuid self @ ''/announcements''"
  from Inr have ne: "d \<noteq> []" using announcement_request_data_sender by blast
  obtain r log' where r: "raw_request self transport METHOD_POST ?url (PDict d) log = (r, log')"
    by (cases "raw_request self transport METHOD_POST ?url (PDict d) log")
  have "snd (raw_request self transport METHOD_POST ?url (PDict d) log) = log'"
    using r by simp
  then have log': "log' = (if json_serializable (PDict d) then
        log @ [\<lparr>req_method = ''POST'', req_url = ?url, req_headers = get_layer_headers self,
                 req_data = Some (PDict d)\<rparr>] else log)"
    using ne by (auto simp: raw_request_log METHOD_POST_def)
  show ?thesis
    using Inr r log'
    by (simp add: send_announcement_def announcements_uri split: sum.splits)
qed

section \<open>The parts of the model no claim singles out\<close>

text \<open>
  The decoders of \<open>Sender\<close>, \<open>MessagePart\<close> and \<open>Conversation\<close> accept every JSON
  object (the last one as long as the date parser is not called); the URI builder with no
  segment gives the base URI of the application; \<open>create_conversation\<close> issues one
  POST to \<open>/apps/<app>/conversations\<close> with the three keys of its body.
\<close>

lemma leaf_decoders_total:
  "(\<exists>s. Sender_from_dict (PDict d) = Inr s)
   \<and> (\<exists>p. MessagePart_from_dict (PDict d) = Inr p)
   \<and> (map_of d ''created_at'' = None \<longrightarrow> (\<exists>c. Conversation_from_dict parse (PDict d) = Inr c))"
  by (simp add: Sender_from_dict_def dict_get_def)

lemma base_uri: "get_layer_uri self [] = Inr (''https://api.layer.com/apps/'' @ app_uuid self @ ''/'')"
  by (simp add: get_layer_uri_def)

lemma create_conversation_request:
  "snd (create_conversation self transport parse participants distinct_flag metadata log)
     = (if json_serializable participants \<and> json_serializable distinct_flag
           \<and> json_serializable metadata
        then log @ [\<lparr>req_method = ''POST'',
                      req_url = ''https://api.layer.com/apps/'' @ app_uuid self @ ''/conversations'',
                      req_headers = get_layer_headers self,
                      req_data = Some (PDict [(''participants'', participants),
                                              (''distinct'', distinct_flag),
                                              (''metadata'', metadata)])\<rparr>]
        else log)"
proof -
  let ?url = "''https://api.layer.com/apps/'' @ app_uuid self @ ''/conversations''"
  let ?d = "PDict [(''participants'', participants), (''distinct'', distinct_flag),
                   (''metadata'', metadata)]"
  have u: "get_layer_uri self [PStr LAYER_URI_CONVERSATIONS] = Inr ?url"
    by (simp add: get_layer_uri_def LAYER_URI_CONVERSATIONS_def)
  obtain r log' where r: "raw_request self transport METHOD_POST ?url ?d log = (r, log')"
    by (cases "raw_request self transport METHOD_POST ?url ?d log")
  have "snd (raw_request self transport METHOD_POST ?url ?d log) = log'"
    using r by simp
  then have "log' = (if json_serializable ?d then
      log @ [\<lparr>req_method = ''POST'', req_url = ?url, req_headers = get_layer_headers self,
               req_data = Some ?d\<rparr>] else log)"
    by (auto simp: raw_request_log METHOD_POST_def)
  then show ?thesis
    using r u by (auto simp: create_conversation_def split: sum.splits)
qed

section \<open>Encoding of push notifications\<close>

text \<open>
  Claim C1 does not hold of the code. A notification with one override for \<open>u1\<close>,
  which itself carries an override for \<open>u2\<close>, encodes to a dict whose \<open>'recipients'\<close>
  entry is the original mapping: its value for \<open>u1\<close> is the \<open>PushNotification\<close>
  instance with its nested overrides, not a dict of \<open>text\<close> and \<open>sound\<close>. The encoding
  that the specification describes would give the reduced map shown second.
\<close>

theorem PushNotification_as_dict_keeps_overrides:
  "PushNotification_as_dict
     (PushNotification (PStr ''hi'') PNone
        (PDict [(''u1'', PushNotification (PStr ''yo'') (PStr ''ping'')
                   (PDict [(''u2'', PushNotification (PStr ''deep'') PNone PNone)]))]))
   = Inr [(''text'', PStr ''hi''),
          (''recipients'',
             PDict [(''u1'', PushNotification (PStr ''yo'') (PStr ''ping'')
                      (PDict [(''u2'', PushNotification (PStr ''deep'') PNone PNone)]))])]
   \<and> PushNotification_as_dict_spec
     (PushNotification (PStr ''hi'') PNone
        (PDict [(''u1'', PushNotification (PStr ''yo'') (PStr ''ping'')
                   (PDict [(''u2'', PushNotification (PStr ''deep'') PNone PNone)]))]))
   = Inr [(''text'', PStr ''hi''),
          (''recipients'',
             PDict [(''u1'', PDict [(''text'', PStr ''yo''), (''sound'', PStr ''ping'')])])]"
  by simp

section \<open>Decoding of sparse objects\<close>

text \<open>
  Claim C2 does not hold of the code. Decoding a \<open>Message\<close> from the empty JSON
  object raises \<open>AttributeError\<close>: \<open>Conversation.from_dict\<close> is called with \<open>None\<close>
  and calls \<open>get\<close> on it. With a conversation but no parts, iterating over \<open>None\<close>
  raises \<open>TypeError\<close>; so does decoding an \<open>Announcement\<close> from the empty object.
  \<open>Sender.from_dict\<close> has the guard the other two lack and returns \<open>None\<close> for \<open>None\<close>.
\<close>

theorem from_dict_raises_on_sparse_object:
  "Message_from_dict parse (PDict []) = Inl AttributeError
   \<and> Message_from_dict parse (PDict [(''conversation'', PDict [])]) = Inl TypeError
   \<and> Announcement_from_dict parse (PDict []) = Inl TypeError
   \<and> Sender_from_dict PNone = Inr None"
  by (simp add: parse_date_def Sender_from_dict_def dict_get_def parts_from_def)

section \<open>The request executor\<close>

text \<open>
  Claim C3, as the code has it. Let the request body be serializable and the transport
  answer the request with a response. If the status is not successful and the body is a
  JSON object, \<open>_raw_request\<close> raises \<open>LayerPlatformException\<close> with \<open>message\<close>,
  \<open>code\<close> and \<open>error_id\<close> read from the keys \<open>message\<close>, \<open>code\<close> and \<open>id\<close> (\<open>None\<close>
  for a missing key) and \<open>http_code\<close> the status. If the status is not successful and the
  body is not JSON, it raises \<open>LayerPlatformException\<close> with the raw text and the
  status, \<open>code\<close> and \<open>error_id\<close> being \<open>None\<close>. If the status is successful and the
  body is JSON, it returns the parsed body; if the status is successful and the body is
  not JSON, the parser's \<open>ValueError\<close> propagates.
\<close>

theorem raw_request_classifies:
  assumes "\<not> truthy data \<or> json_serializable data"
    and "transport \<lparr>req_method = meth, req_url = url, req_headers = get_layer_headers self,
                    req_data = (if truthy data then Some data else None)\<rparr> = Inr result"
  shows "(\<not> resp_ok result \<and> resp_json result = Some (PDict err) \<longrightarrow>
            fst (raw_request self transport meth url data log) =
              Inl (LayerPlatformException (dict_get err ''message'')
                     (PInt (resp_status_code result)) (dict_get err ''code'')
                     (dict_get err ''id'')))
       \<and> (\<not> resp_ok result \<and> resp_json result = None \<longrightarrow>
            fst (raw_request self transport meth url data log) =
              Inl (LayerPlatformException (PStr (resp_text result))
                     (PInt (resp_status_code result)) PNone PNone))
       \<and> (resp_ok result \<and> resp_json result = Some j \<longrightarrow>
            fst (raw_request self transport meth url data log) = Inr j)
       \<and> (resp_ok result \<and> resp_json result = None \<longrightarrow>
            fst (raw_request self transport meth url data log) = Inl ValueError)
       \<and> (map_of err key = None \<longrightarrow> dict_get err key = PNone)"
proof -
  from assms have
    "raw_request self transport meth url data log =
     ((if resp_ok result then
         (case resp_json result of None \<Rightarrow> Inl ValueError | Some j \<Rightarrow> Inr j)
       else
         (case resp_json result of
            None \<Rightarrow> Inl (LayerPlatformException (PStr (resp_text result))
                          (PInt (resp_status_code result)) PNone PNone)
          | Some (PDict err) \<Rightarrow>
              Inl (LayerPlatformException (dict_get err ''message'')
                     (PInt (resp_status_code result)) (dict_get err ''code'')
                     (dict_get err ''id''))
          | Some _ \<Rightarrow> Inl AttributeError)),
      log @ [\<lparr>req_method = meth, req_url = url, req_headers = get_layer_headers self,
               req_data = (if truthy data then Some data else None)\<rparr>])"
    by (rule raw_request_response)
  then show ?thesis by (simp add: dict_get_def)
qed

text \<open>The theorem at the responses of the specification: status 422 with the object
  \<open>{"message": "bad", "code": "invalid_id", "id": "err-1"}\<close>, status 500 with the text
  \<open>Internal Server Error\<close>, and a successful response with the body \<open>{}\<close>.\<close>

theorem raw_request_classifies_witness:
  "fst (raw_request \<lparr>app_uuid = ''app'', bearer_token = ''token''\<rparr>
          (\<lambda>req. Inr \<lparr>resp_ok = False, resp_status_code = 422, resp_text = ''{...}'',
                       resp_json = Some (PDict [(''message'', PStr ''bad''),
                         (''code'', PStr ''invalid_id''), (''id'', PStr ''err-1'')])\<rparr>)
          ''GET'' ''https://api.layer.com/apps/app/conversations/1'' PNone [])
     = Inl (LayerPlatformException (PStr ''bad'') (PInt 422) (PStr ''invalid_id'') (PStr ''err-1''))
   \<and> fst (raw_request \<lparr>app_uuid = ''app'', bearer_token = ''token''\<rparr>
          (\<lambda>req. Inr \<lparr>resp_ok = False, resp_status_code = 500,
                       resp_text = ''Internal Server Error'', resp_json = None\<rparr>)
          ''GET'' ''https://api.layer.com/apps/app/conversations/1'' PNone [])
     = Inl (LayerPlatformException (PStr ''Internal Server Error'') (PInt 500) PNone PNone)
   \<and> fst (raw_request \<lparr>app_uuid = ''app'', bearer_token = ''token''\<rparr>
          (\<lambda>req. Inr \<lparr>resp_ok = True, resp_status_code = 200, resp_text = ''{}'',
                       resp_json = Some (PDict [])\<rparr>)
          ''GET'' ''https://api.layer.com/apps/app/conversations/1'' PNone [])
     = Inr (PDict [])"
proof -
  have a: "\<not> truthy PNone \<or> json_serializable PNone" by simp
  note t = raw_request_classifies [OF a, where self = "\<lparr>app_uuid = ''app'', bearer_token = ''token''\<rparr>"
      and meth = "''GET''" and url = "''https://api.layer.com/apps/app/conversations/1''"
      and log = "[]"]
  have "fst (raw_request \<lparr>app_uuid = ''app'', bearer_token = ''token''\<rparr>
          (\<lambda>req. Inr \<lparr>resp_ok = False, resp_status_code = 422, resp_text = ''{...}'',
                       resp_json = Some (PDict [(''message'', PStr ''bad''),
                         (''code'', PStr ''invalid_id''), (''id'', PStr ''err-1'')])\<rparr>)
          ''GET'' ''https://api.layer.com/apps/app/conversations/1'' PNone [])
     = Inl (LayerPlatformException (PStr ''bad'') (PInt 422) (PStr ''invalid_id'') (PStr ''err-1''))"
    using t [where transport = "\<lambda>req. Inr \<lparr>resp_ok = False, resp_status_code = 422,
        resp_text = ''{...}'', resp_json = Some (PDict [(''message'', PStr ''bad''),
                         (''code'', PStr ''invalid_id''), (''id'', PStr ''err-1'')])\<rparr>"
        and err = "[(''message'', PStr ''bad''),
                         (''code'', PStr ''invalid_id''), (''id'', PStr ''err-1'')]", OF refl]
    by (simp add: dict_get_def)
  moreover have "fst (raw_request \<lparr>app_uuid = ''app'', bearer_token = ''token''\<rparr>
          (\<lambda>req. Inr \<lparr>resp_ok = False, resp_status_code = 500,
                       resp_text = ''Internal Server Error'', resp_json = None\<rparr>)
          ''GET'' ''https://api.layer.com/apps/app/conversations/1'' PNone [])
     = Inl (LayerPlatformException (PStr ''Internal Server Error'') (PInt 500) PNone PNone)"
    using t [where transport = "\<lambda>req. Inr \<lparr>resp_ok = False, resp_status_code = 500,
                       resp_text = ''Internal Server Error'', resp_json = None\<rparr>", OF refl]
    by simp
  moreover have "fst (raw_request \<lparr>app_uuid = ''app'', bearer_token = ''token''\<rparr>
          (\<lambda>req. Inr \<lparr>resp_ok = True, resp_status_code = 200, resp_text = ''{}'',
                       resp_json = Some (PDict [])\<rparr>)
          ''GET'' ''https://api.layer.com/apps/app/conversations/1'' PNone [])
     = Inr (PDict [])"
    using t [where transport = "\<lambda>req. Inr \<lparr>resp_ok = True, resp_status_code = 200,
        resp_text = ''{}'', resp_json = Some (PDict [])\<rparr>" and j = "PDict []", OF refl]
    by simp
  ultimately show ?thesis by blast
qed

text \<open>
  Claim C3 as stated fails twice: a successful response whose body is not JSON raises
  \<open>ValueError\<close>, and a response with status 500 whose body is the JSON list \<open>[1]\<close>
  raises \<open>AttributeError\<close>, not \<open>LayerPlatformException\<close>.
\<close>

theorem raw_request_counterexample:
  "fst (raw_request \<lparr>app_uuid = ''app'', bearer_token = ''token''\<rparr>
          (\<lambda>req. Inr \<lparr>resp_ok = True, resp_status_code = 200, resp_text = ''OK'',
                       resp_json = None\<rparr>)
          ''GET'' ''https://api.layer.com/apps/app/conversations/1'' PNone [])
     = Inl ValueError
   \<and> fst (raw_request \<lparr>app_uuid = ''app'', bearer_token = ''token''\<rparr>
          (\<lambda>req. Inr \<lparr>resp_ok = False, resp_status_code = 500, resp_text = ''[1]'',
                       resp_json = Some (PList [PInt 1])\<rparr>)
          ''GET'' ''https://api.layer.com/apps/app/conversations/1'' PNone [])
     = Inl AttributeError"
  by (simp add: raw_request_def Let_def)

section \<open>UUID extraction\<close>

text \<open>
  Claim C4, as the code has it. For every identifier string that \<open>urlparse\<close> accepts,
  \<open>uuid\<close> returns the last piece of the path when splitting the path at \<open>/\<close> gives
  exactly three pieces and the last one has 36 characters, and \<open>None\<close> otherwise. For
  a path that begins with a slash, as in \<open>scheme:///resource-type/uuid\<close>, this is:
  the path has exactly two segments and the last segment has 36 characters. The
  identifier \<open>layer:///conversations/f3cc7b32-3c92-11e4-baad-164230d1df67\<close> yields its
  UUID; identifiers with one segment, with three segments, or with a short last segment
  yield \<open>None\<close>.
\<close>

theorem uuid_extraction:
  "(urlparse_path s = Inr path \<longrightarrow>
      uuid (PStr s) =
        Inr (if length (split path CHR ''/'') = 3 \<and> length (last (split path CHR ''/'')) = 36
             then PStr (last (split path CHR ''/'')) else PNone))
   \<and> (urlparse_path s = Inr (CHR ''/'' # rest) \<longrightarrow>
      uuid (PStr s) =
        Inr (if length (path_segments (CHR ''/'' # rest)) = 2
                \<and> length (last (path_segments (CHR ''/'' # rest))) = 36
             then PStr (last (path_segments (CHR ''/'' # rest))) else PNone))
   \<and> uuid (PStr ''layer:///conversations/f3cc7b32-3c92-11e4-baad-164230d1df67'')
      = Inr (PStr ''f3cc7b32-3c92-11e4-baad-164230d1df67'')
   \<and> uuid (PStr ''layer:///conversations'') = Inr PNone
   \<and> uuid (PStr ''layer:///apps/1/conversations/f3cc7b32-3c92-11e4-baad-164230d1df67'')
      = Inr PNone
   \<and> uuid (PStr ''layer:///conversations/f3cc7b32'') = Inr PNone"
proof (intro conjI impI)
  assume "urlparse_path s = Inr path"
  then show "uuid (PStr s) =
        Inr (if length (split path CHR ''/'') = 3 \<and> length (last (split path CHR ''/'')) = 36
             then PStr (last (split path CHR ''/'')) else PNone)"
    by (simp add: uuid_of_path_last)
next
  assume "urlparse_path s = Inr (CHR ''/'' # rest)"
  then show "uuid (PStr s) =
        Inr (if length (path_segments (CHR ''/'' # rest)) = 2
                \<and> length (last (path_segments (CHR ''/'' # rest))) = 36
             then PStr (last (path_segments (CHR ''/'' # rest))) else PNone)"
    by (simp add: uuid_of_path_rooted)
next
  show "uuid (PStr ''layer:///conversations/f3cc7b32-3c92-11e4-baad-164230d1df67'')
      = Inr (PStr ''f3cc7b32-3c92-11e4-baad-164230d1df67'')"
    by code_simp
next
  show "uuid (PStr ''layer:///conversations'') = Inr PNone"
    by code_simp
next
  show "uuid (PStr ''layer:///apps/1/conversations/f3cc7b32-3c92-11e4-baad-164230d1df67'')
      = Inr PNone"
    by code_simp
next
  show "uuid (PStr ''layer:///conversations/f3cc7b32'') = Inr PNone"
    by code_simp
qed

text \<open>The theorem at the identifier of the docstring: the path is rooted and has the
  two segments \<open>conversations\<close> and the UUID.\<close>

theorem uuid_extraction_witness:
  "urlparse_path ''layer:///conversations/f3cc7b32-3c92-11e4-baad-164230d1df67''
     = Inr ''/conversations/f3cc7b32-3c92-11e4-baad-164230d1df67''
   \<and> path_segments ''/conversations/f3cc7b32-3c92-11e4-baad-164230d1df67''
     = [''conversations'', ''f3cc7b32-3c92-11e4-baad-164230d1df67'']
   \<and> uuid (PStr ''layer:///conversations/f3cc7b32-3c92-11e4-baad-164230d1df67'')
     = Inr (PStr ''f3cc7b32-3c92-11e4-baad-164230d1df67'')"
proof -
  have p: "urlparse_path ''layer:///conversations/f3cc7b32-3c92-11e4-baad-164230d1df67''
     = Inr (CHR ''/'' # ''conversations/f3cc7b32-3c92-11e4-baad-164230d1df67'')"
    by code_simp
  have g: "path_segments ''/conversations/f3cc7b32-3c92-11e4-baad-164230d1df67''
     = [''conversations'', ''f3cc7b32-3c92-11e4-baad-164230d1df67'']"
    by code_simp
  from uuid_extraction [of "''layer:///conversations/f3cc7b32-3c92-11e4-baad-164230d1df67''"
      "''/conversations/f3cc7b32-3c92-11e4-baad-164230d1df67''"
      "''conversations/f3cc7b32-3c92-11e4-baad-164230d1df67''"] p
  have "uuid (PStr ''layer:///conversations/f3cc7b32-3c92-11e4-baad-164230d1df67'') =
        Inr (if length (path_segments ''/conversations/f3cc7b32-3c92-11e4-baad-164230d1df67'') = 2
                \<and> length (last (path_segments ''/conversations/f3cc7b32-3c92-11e4-baad-164230d1df67'')) = 36
             then PStr (last (path_segments ''/conversations/f3cc7b32-3c92-11e4-baad-164230d1df67'')) else PNone)"
    by blast
  with p g show ?thesis by simp
qed

text \<open>
  Claim C4 as stated fails on a path without a leading slash: the path
  \<open>x/conversations/f3cc7b32-...\<close> has three segments and \<open>uuid\<close> returns the UUID,
  while the path \<open>conversations/f3cc7b32-...\<close> has exactly two segments, the last of
  36 characters, and \<open>uuid\<close> returns \<open>None\<close>.
\<close>

theorem uuid_extraction_counterexample:
  "path_segments ''x/conversations/f3cc7b32-3c92-11e4-baad-164230d1df67''
     = [''x'', ''conversations'', ''f3cc7b32-3c92-11e4-baad-164230d1df67'']
   \<and> urlparse_path ''layer:x/conversations/f3cc7b32-3c92-11e4-baad-164230d1df67''
     = Inr ''x/conversations/f3cc7b32-3c92-11e4-baad-164230d1df67''
   \<and> uuid (PStr ''layer:x/conversations/f3cc7b32-3c92-11e4-baad-164230d1df67'')
     = Inr (PStr ''f3cc7b32-3c92-11e4-baad-164230d1df67'')
   \<and> path_segments ''conversations/f3cc7b32-3c92-11e4-baad-164230d1df67''
     = [''conversations'', ''f3cc7b32-3c92-11e4-baad-164230d1df67'']
   \<and> uuid (PStr ''layer:conversations/f3cc7b32-3c92-11e4-baad-164230d1df67'') = Inr PNone"
  by code_simp

section \<open>The guard of \<open>send_message\<close>\<close>

text \<open>
  Claim C5, as the code has it. When the conversation or the sender is \<open>None\<close>, or the
  list of parts is \<open>None\<close> or empty, \<open>send_message\<close> returns \<open>None\<close> and the log of
  requests is unchanged. When all three are present and the list is not empty, the
  conversation's identifier yields a UUID, and the request body is built and is
  serializable, the call adds exactly one request to the log: a POST to
  \<open>/apps/<app>/conversations/<uuid>/messages\<close> carrying that body.
\<close>

theorem send_message_guard_and_post:
  "(conversation = None \<or> sender = None \<or> message_parts = None \<or> message_parts = Some [] \<longrightarrow>
      send_message self transport parse conversation sender message_parts notification log
        = (Inr None, log))
   \<and> (uuid (conv_id c) = Inr (PStr u)
       \<and> message_request_data s (p # ps) notification = Inr d
       \<and> json_serializable (PDict d) \<longrightarrow>
      snd (send_message self transport parse (Some c) (Some s) (Some (p # ps)) notification log)
        = log @ [\<lparr>req_method = ''POST'',
                   req_url = ''https://api.layer.com/apps/'' @ app_uuid self
                             @ ''/conversations/'' @ u @ ''/messages'',
                   req_headers = get_layer_headers self,
                   req_data = Some (PDict d)\<rparr>])"
proof (intro conjI impI)
  assume "conversation = None \<or> sender = None \<or> message_parts = None
            \<or> message_parts = Some []"
  then show "send_message self transport parse conversation sender message_parts notification log
        = (Inr None, log)"
    by (rule send_message_guard)
next
  assume a: "uuid (conv_id c) = Inr (PStr u)
       \<and> message_request_data s (p # ps) notification = Inr d
       \<and> json_serializable (PDict d)"
  from a have 1: "uuid (conv_id c) = Inr (PStr u)" by (rule conjunct1)
  from a have 2: "message_request_data s (p # ps) notification = Inr d" by simp
  from a have 3: "json_serializable (PDict d)" by simp
  show "snd (send_message self transport parse (Some c) (Some s) (Some (p # ps)) notification log)
        = log @ [\<lparr>req_method = ''POST'',
                   req_url = ''https://api.layer.com/apps/'' @ app_uuid self
                             @ ''/conversations/'' @ u @ ''/messages'',
                   req_headers = get_layer_headers self,
                   req_data = Some (PDict d)\<rparr>]"
    by (rule send_message_posts [OF 1 2 3])
qed

text \<open>The theorem at a call without sender, and at a call with conversation, sender and
  one part.\<close>

theorem send_message_guard_and_post_witness:
  "send_message \<lparr>app_uuid = ''app'', bearer_token = ''token''\<rparr> (\<lambda>req. Inl TransportError)
     (\<lambda>v. Inl ValueError)
     (Some \<lparr>conv_id = PStr ''layer:///conversations/f3cc7b32-3c92-11e4-baad-164230d1df67'',
            conv_url = PNone, conv_messages_url = PNone, conv_created_at = PNone,
            conv_participants = PNone, conv_distinct = PNone, conv_metadata = PNone\<rparr>)
     None
     (Some [\<lparr>part_body = PStr ''hello'', part_mime_type = PStr ''text/plain'',
             part_encoding = PNone\<rparr>])
     PNone [] = (Inr None, [])
   \<and> snd (send_message \<lparr>app_uuid = ''app'', bearer_token = ''token''\<rparr>
       (\<lambda>req. Inl TransportError) (\<lambda>v. Inl ValueError)
       (Some \<lparr>conv_id = PStr ''layer:///conversations/f3cc7b32-3c92-11e4-baad-164230d1df67'',
              conv_url = PNone, conv_messages_url = PNone, conv_created_at = PNone,
              conv_participants = PNone, conv_distinct = PNone, conv_metadata = PNone\<rparr>)
       (Some \<lparr>sender_id = PStr ''u1'', sender_name = PStr ''Alice''\<rparr>)
       (Some [\<lparr>part_body = PStr ''hello'', part_mime_type = PStr ''text/plain'',
               part_encoding = PNone\<rparr>])
       PNone [])
     = [\<lparr>req_method = ''POST'',
         req_url = ''https://api.layer.com/apps/app/conversations/f3cc7b32-3c92-11e4-baad-164230d1df67/messages'',
         req_headers = [(''Accept'', ''application/vnd.layer+json; version=1.0''),
                        (''Authorization'', ''Bearer token''),
                        (''Content-Type'', ''application/json'')],
         req_data = Some (PDict
           [(''sender'', PDict [(''user_id'', PStr ''u1'')]),
            (''parts'', PList [PDict [(''body'', PStr ''hello''),
                                      (''mime_type'', PStr ''text/plain'')]])])\<rparr>]"
proof -
  let ?c = "\<lparr>conv_id = PStr ''layer:///conversations/f3cc7b32-3c92-11e4-baad-164230d1df67'',
            conv_url = PNone, conv_messages_url = PNone, conv_created_at = PNone,
            conv_participants = PNone, conv_distinct = PNone, conv_metadata = PNone\<rparr>"
  let ?s = "\<lparr>sender_id = PStr ''u1'', sender_name = PStr ''Alice''\<rparr>"
  let ?p = "\<lparr>part_body = PStr ''hello'', part_mime_type = PStr ''text/plain'',
             part_encoding = PNone\<rparr>"
  let ?d = "[(''sender'', PDict [(''user_id'', PStr ''u1'')]),
            (''parts'', PList [PDict [(''body'', PStr ''hello''),
                                      (''mime_type'', PStr ''text/plain'')]])]"
  let ?self = "\<lparr>app_uuid = ''app'', bearer_token = ''token''\<rparr>"
  have u: "uuid (PStr ''layer:///conversations/f3cc7b32-3c92-11e4-baad-164230d1df67'')
      = Inr (PStr ''f3cc7b32-3c92-11e4-baad-164230d1df67'')"
    by code_simp
  have 1: "uuid (conv_id ?c) = Inr (PStr ''f3cc7b32-3c92-11e4-baad-164230d1df67'')"
    using u by simp
  have 2: "message_request_data ?s (?p # []) PNone = Inr ?d"
    by (simp add: message_request_data_def add_notification_def Sender_as_dict_def
        MessagePart_as_dict_def)
  have 3: "json_serializable (PDict ?d)" by simp
  note t = send_message_guard_and_post [where self = ?self
      and transport = "\<lambda>req. Inl TransportError" and parse = "\<lambda>v. Inl ValueError"
      and notification = PNone and log = "[]"]
  have g: "send_message ?self (\<lambda>req. Inl TransportError) (\<lambda>v. Inl ValueError) (Some ?c) None
      (Some [?p]) PNone [] = (Inr None, [])"
    using t [where conversation = "Some ?c" and sender = None and message_parts = "Some [?p]"]
    by blast
  have h: "snd (send_message ?self (\<lambda>req. Inl TransportError) (\<lambda>v. Inl ValueError) (Some ?c)
      (Some ?s) (Some [?p]) PNone [])
     = [] @ [\<lparr>req_method = ''POST'',
         req_url = ''https://api.layer.com/apps/'' @ app_uuid ?self
                             @ ''/conversations/'' @ ''f3cc7b32-3c92-11e4-baad-164230d1df67''
                             @ ''/messages'',
         req_headers = get_layer_headers ?self,
         req_data = Some (PDict ?d)\<rparr>]"
    using t [where c = ?c and u = "''f3cc7b32-3c92-11e4-baad-164230d1df67''" and s = ?s
        and p = ?p and ps = "[]" and d = ?d] 1 2 3
    by blast
  from g h show ?thesis by (simp add: get_layer_headers_def)
qed

text \<open>
  Claim C5 as stated fails for a conversation whose identifier yields no UUID:
  with conversation, sender and one part present, \<open>'/'.join\<close> raises \<open>TypeError\<close> on
  the \<open>None\<close> that \<open>uuid\<close> returned, and no request is issued.
\<close>

theorem send_message_counterexample:
  "send_message \<lparr>app_uuid = ''app'', bearer_token = ''token''\<rparr>
     (\<lambda>req. Inr \<lparr>resp_ok = True, resp_status_code = 201, resp_text = ''{}'',
                  resp_json = Some (PDict [])\<rparr>)
     (\<lambda>v. Inl ValueError)
     (Some \<lparr>conv_id = PStr ''layer:///conversations/42'',
            conv_url = PNone, conv_messages_url = PNone, conv_created_at = PNone,
            conv_participants = PNone, conv_distinct = PNone, conv_metadata = PNone\<rparr>)
     (Some \<lparr>sender_id = PStr ''u1'', sender_name = PStr ''Alice''\<rparr>)
     (Some [\<lparr>part_body = PStr ''hello'', part_mime_type = PStr ''text/plain'',
             part_encoding = PNone\<rparr>])
     PNone [] = (Inl TypeError, [])"
proof -
  have u: "uuid (PStr ''layer:///conversations/42'') = Inr PNone"
    by code_simp
  show ?thesis
    by (simp add: send_message_def message_request_data_def add_notification_def u
        get_layer_uri_def del: uuid.simps)
qed

section \<open>Encoding of senders\<close>

text \<open>
  Claim C6, as the code has it. \<open>Sender.as_dict\<close> emits \<open>user_id\<close> exactly when the
  identifier is true in Python's sense (present and not empty), and \<open>name\<close>
  otherwise: a non-empty string identifier gives \<open>user_id\<close> only, an identifier that
  is \<open>None\<close> or the empty string gives \<open>name\<close> only. The encoded object never has both
  keys, and the sender with identifier \<open>u1\<close> and name \<open>Alice\<close> encodes to exactly
  \<open>{"user_id": "u1"}\<close>.
\<close>

theorem Sender_as_dict_precedence:
  "Sender_as_dict s =
     (if truthy (sender_id s) then [(''user_id'', sender_id s)] else [(''name'', sender_name s)])
   \<and> (sender_id s = PStr u \<and> u \<noteq> [] \<longrightarrow> Sender_as_dict s = [(''user_id'', PStr u)])
   \<and> (sender_id s = PNone \<or> sender_id s = PStr [] \<longrightarrow>
        Sender_as_dict s = [(''name'', sender_name s)])
   \<and> (map_of (Sender_as_dict s) ''user_id'' = None \<or> map_of (Sender_as_dict s) ''name'' = None)
   \<and> Sender_as_dict \<lparr>sender_id = PStr ''u1'', sender_name = PStr ''Alice''\<rparr>
        = [(''user_id'', PStr ''u1'')]"
  by (auto simp: Sender_as_dict_def)

text \<open>The theorem at a sender with a non-empty identifier and at one without an
  identifier.\<close>

theorem Sender_as_dict_precedence_witness:
  "Sender_as_dict \<lparr>sender_id = PStr ''u1'', sender_name = PStr ''Alice''\<rparr>
        = [(''user_id'', PStr ''u1'')]
   \<and> Sender_as_dict \<lparr>sender_id = PNone, sender_name = PStr ''Alice''\<rparr>
        = [(''name'', PStr ''Alice'')]"
  using Sender_as_dict_precedence [of "\<lparr>sender_id = PStr ''u1'', sender_name = PStr ''Alice''\<rparr>" "''u1''"]
    Sender_as_dict_precedence [of "\<lparr>sender_id = PNone, sender_name = PStr ''Alice''\<rparr>"]
  by simp

text \<open>
  Claim C6 as stated fails for an identifier that is present but empty: the sender with
  identifier \<open>""\<close> and name \<open>Alice\<close> encodes to \<open>{"name": "Alice"}\<close>.
\<close>

theorem Sender_as_dict_counterexample:
  "sender_id \<lparr>sender_id = PStr '''', sender_name = PStr ''Alice''\<rparr> \<noteq> PNone
   \<and> Sender_as_dict \<lparr>sender_id = PStr '''', sender_name = PStr ''Alice''\<rparr>
        = [(''name'', PStr ''Alice'')]"
  by (simp add: Sender_as_dict_def)

section \<open>The sender of an announcement\<close>

text \<open>
  Claim C7. Every request that \<open>send_announcement\<close> issues has a JSON object as body
  whose \<open>sender\<close> entry is exactly \<open>{"name": <sender name>}\<close> and which has no
  \<open>user_id\<close> entry; the body does not depend on the sender's identifier; and when the
  body is built and is serializable, exactly one request is issued, a POST to
  \<open>/apps/<app>/announcements\<close> with that body.
\<close>

theorem send_announcement_sender_name_only:
  "(\<forall>req \<in> set (snd (send_announcement self transport parse sender recipients message_parts
                        notification [])).
      \<exists>s d. sender = Some s \<and> req_data req = Some (PDict d)
            \<and> map_of d ''sender'' = Some (PDict [(''name'', sender_name s)])
            \<and> map_of d ''user_id'' = None)
   \<and> announcement_request_data (Some (s\<lparr>sender_id := i\<rparr>)) recipients message_parts
         notification
       = announcement_request_data (Some s) recipients message_parts notification
   \<and> (announcement_request_data sender recipients message_parts notification = Inr d
       \<and> json_serializable (PDict d) \<longrightarrow>
      snd (send_announcement self transport parse sender recipients message_parts
             notification log)
        = log @ [\<lparr>req_method = ''POST'',
                   req_url = ''https://api.layer.com/apps/'' @ app_uuid self @ ''/announcements'',
                   req_headers = get_layer_headers self,
                   req_data = Some (PDict d)\<rparr>])"
proof (intro conjI ballI impI)
  fix req
  assume "req \<in> set (snd (send_announcement self transport parse sender recipients message_parts
                        notification []))"
  then have "\<exists>d. announcement_request_data sender recipients message_parts notification
      = Inr d \<and> req_data req = Some (PDict d)"
    by (cases "announcement_request_data sender recipients message_parts notification")
      (auto simp: send_announcement_log split: if_splits)
  then obtain d where d: "announcement_request_data sender recipients message_parts notification
      = Inr d" and "req_data req = Some (PDict d)"
    by blast
  with announcement_request_data_sender [OF d]
  show "\<exists>s d. sender = Some s \<and> req_data req = Some (PDict d)
            \<and> map_of d ''sender'' = Some (PDict [(''name'', sender_name s)])
            \<and> map_of d ''user_id'' = None"
    by blast
next
  show "announcement_request_data (Some (s\<lparr>sender_id := i\<rparr>)) recipients message_parts
         notification
       = announcement_request_data (Some s) recipients message_parts notification"
    by (simp add: announcement_request_data_def split: option.splits)
next
  assume "announcement_request_data sender recipients message_parts notification = Inr d
       \<and> json_serializable (PDict d)"
  then show "snd (send_announcement self transport parse sender recipients message_parts
             notification log)
        = log @ [\<lparr>req_method = ''POST'',
                   req_url = ''https://api.layer.com/apps/'' @ app_uuid self @ ''/announcements'',
                   req_headers = get_layer_headers self,
                   req_data = Some (PDict d)\<rparr>]"
    by (simp add: send_announcement_log)
qed

text \<open>The theorem at a sender that has both an identifier and a name: the body sent
  holds the name only.\<close>

theorem send_announcement_sender_name_only_witness:
  "snd (send_announcement \<lparr>app_uuid = ''app'', bearer_token = ''token''\<rparr>
          (\<lambda>req. Inl TransportError) (\<lambda>v. Inl ValueError)
          (Some \<lparr>sender_id = PStr ''u1'', sender_name = PStr ''Alice''\<rparr>)
          (PList [PStr ''bob''])
          (Some [\<lparr>part_body = PStr ''hello'', part_mime_type = PStr ''text/plain'',
                  part_encoding = PNone\<rparr>])
          PNone [])
     = [\<lparr>req_method = ''POST'',
         req_url = ''https://api.layer.com/apps/app/announcements'',
         req_headers = [(''Accept'', ''application/vnd.layer+json; version=1.0''),
                        (''Authorization'', ''Bearer token''),
                        (''Content-Type'', ''application/json'')],
         req_data = Some (PDict
           [(''sender'', PDict [(''name'', PStr ''Alice'')]),
            (''parts'', PList [PDict [(''body'', PStr ''hello''),
                                      (''mime_type'', PStr ''text/plain'')]]),
            (''recipients'', PList [PStr ''bob''])])\<rparr>]"
proof -
  let ?s = "\<lparr>sender_id = PStr ''u1'', sender_name = PStr ''Alice''\<rparr>"
  let ?p = "\<lparr>part_body = PStr ''hello'', part_mime_type = PStr ''text/plain'',
             part_encoding = PNone\<rparr>"
  let ?d = "[(''sender'', PDict [(''name'', PStr ''Alice'')]),
            (''parts'', PList [PDict [(''body'', PStr ''hello''),
                                      (''mime_type'', PStr ''text/plain'')]]),
            (''recipients'', PList [PStr ''bob''])]"
  let ?self = "\<lparr>app_uuid = ''app'', bearer_token = ''token''\<rparr>"
  have 1: "announcement_request_data (Some ?s) (PList [PStr ''bob'']) (Some [?p]) PNone = Inr ?d"
    by (simp add: announcement_request_data_def add_notification_def MessagePart_as_dict_def)
  have 2: "json_serializable (PDict ?d)" by simp
  have "snd (send_announcement ?self (\<lambda>req. Inl TransportError) (\<lambda>v. Inl ValueError)
          (Some ?s) (PList [PStr ''bob'']) (Some [?p]) PNone [])
     = [] @ [\<lparr>req_method = ''POST'',
         req_url = ''https://api.layer.com/apps/'' @ app_uuid ?self @ ''/announcements'',
         req_headers = get_layer_headers ?self,
         req_data = Some (PDict ?d)\<rparr>]"
    using send_announcement_sender_name_only [where self = ?self
      and transport = "\<lambda>req. Inl TransportError" and parse = "\<lambda>v. Inl ValueError"
      and sender = "Some ?s" and recipients = "PList [PStr ''bob'']"
      and message_parts = "Some [?p]" and notification = PNone and log = "[]" and d = ?d] 1 2
    by blast
  then show ?thesis by (simp add: get_layer_headers_def)
qed

section \<open>Message parts\<close>

text \<open>
  Claim C8. The part built with body \<open>hello\<close> and no other argument has MIME type
  \<open>text/plain\<close> and no encoding; it encodes to \<open>{"body": "hello", "mime_type":
  "text/plain"}\<close>, and decoding that object gives the same part back.
\<close>

theorem MessagePart_round_trip:
  "MessagePart_as_dict (MessagePart_init (PStr ''hello'') None None)
     = [(''body'', PStr ''hello''), (''mime_type'', PStr ''text/plain'')]
   \<and> MessagePart_from_dict (PDict (MessagePart_as_dict (MessagePart_init (PStr ''hello'') None None)))
     = Inr (MessagePart_init (PStr ''hello'') None None)
   \<and> MessagePart_init (PStr ''hello'') None None
     = \<lparr>part_body = PStr ''hello'', part_mime_type = PStr ''text/plain'', part_encoding = PNone\<rparr>"
  by (simp add: MessagePart_as_dict_def MessagePart_init_def MIME_TEXT_PLAIN_def dict_get_def)

text \<open>
  Claim C9. Decoding a JSON object without the key \<open>mime_type\<close> gives a part whose
  MIME type is \<open>None\<close>, with body and encoding read from the object; the constructor
  called without a MIME argument gives the MIME type \<open>text/plain\<close>.
\<close>

theorem MessagePart_from_dict_no_default:
  "(map_of d ''mime_type'' = None \<longrightarrow>
      MessagePart_from_dict (PDict d)
        = Inr \<lparr>part_body = dict_get d ''body'', part_mime_type = PNone,
               part_encoding = dict_get d ''encoding''\<rparr>)
   \<and> part_mime_type (MessagePart_init body None encoding) = PStr ''text/plain''"
  by (simp add: MessagePart_init_def MIME_TEXT_PLAIN_def dict_get_def)

text \<open>The theorem at the object \<open>{"body": "hello"}\<close>.\<close>

theorem MessagePart_from_dict_no_default_witness:
  "map_of [(''body'', PStr ''hello'')] ''mime_type'' = None
   \<and> MessagePart_from_dict (PDict [(''body'', PStr ''hello'')])
        = Inr \<lparr>part_body = PStr ''hello'', part_mime_type = PNone, part_encoding = PNone\<rparr>"
  using MessagePart_from_dict_no_default [of "[(''body'', PStr ''hello'')]"]
  by (simp add: dict_get_def)

section \<open>Deleting a conversation\<close>

text \<open>
  Claim C10. When the transport answers the DELETE request for the conversation with a
  successful response, \<open>delete_conversation\<close> returns \<open>None\<close> whatever JSON value the
  body holds, and raises \<open>ValueError\<close> when the body is not JSON.
\<close>

theorem delete_conversation_returns_none:
  assumes "transport \<lparr>req_method = ''DELETE'',
                       req_url = ''https://api.layer.com/apps/'' @ app_uuid self
                                 @ ''/conversations/'' @ u,
                       req_headers = get_layer_headers self,
                       req_data = None\<rparr> = Inr result"
    and "resp_ok result"
  shows "fst (delete_conversation self transport (PStr u) log)
           = (case resp_json result of None \<Rightarrow> Inl ValueError | Some j \<Rightarrow> Inr PNone)"
proof -
  let ?url = "''https://api.layer.com/apps/'' @ app_uuid self @ ''/conversations/'' @ u"
  have a: "\<not> truthy PNone \<or> json_serializable PNone" by simp
  have t: "transport \<lparr>req_method = METHOD_DELETE, req_url = ?url,
      req_headers = get_layer_headers self,
      req_data = (if truthy PNone then Some PNone else None)\<rparr> = Inr result"
    using assms(1) by (simp add: METHOD_DELETE_def)
  from a t have "raw_request self transport METHOD_DELETE ?url PNone log =
     ((if resp_ok result then
         (case resp_json result of None \<Rightarrow> Inl ValueError | Some j \<Rightarrow> Inr j)
       else
         (case resp_json result of
            None \<Rightarrow> Inl (LayerPlatformException (PStr (resp_text result))
                          (PInt (resp_status_code result)) PNone PNone)
          | Some (PDict err) \<Rightarrow>
              Inl (LayerPlatformException (dict_get err ''message'')
                     (PInt (resp_status_code result)) (dict_get err ''code'')
                     (dict_get err ''id''))
          | Some _ \<Rightarrow> Inl AttributeError)),
      log @ [\<lparr>req_method = METHOD_DELETE, req_url = ?url, req_headers = get_layer_headers self,
               req_data = (if truthy PNone then Some PNone else None)\<rparr>])"
    by (rule raw_request_response)
  with assms(2) show ?thesis
    by (simp add: delete_conversation_def conversation_uri split: option.splits)
qed

text \<open>The theorem at a successful response with the body \<open>null\<close> and at one with an
  empty body.\<close>

theorem delete_conversation_returns_none_witness:
  "fst (delete_conversation \<lparr>app_uuid = ''app'', bearer_token = ''token''\<rparr>
          (\<lambda>req. Inr \<lparr>resp_ok = True, resp_status_code = 204, resp_text = ''null'',
                       resp_json = Some PNone\<rparr>)
          (PStr ''f3cc7b32-3c92-11e4-baad-164230d1df67'') []) = Inr PNone
   \<and> fst (delete_conversation \<lparr>app_uuid = ''app'', bearer_token = ''token''\<rparr>
          (\<lambda>req. Inr \<lparr>resp_ok = True, resp_status_code = 204, resp_text = '''',
                       resp_json = None\<rparr>)
          (PStr ''f3cc7b32-3c92-11e4-baad-164230d1df67'') []) = Inl ValueError"
proof -
  note t = delete_conversation_returns_none [where self = "\<lparr>app_uuid = ''app'', bearer_token = ''token''\<rparr>"
      and u = "''f3cc7b32-3c92-11e4-baad-164230d1df67''" and log = "[]"]
  have a: "fst (delete_conversation \<lparr>app_uuid = ''app'', bearer_token = ''token''\<rparr>
          (\<lambda>req. Inr \<lparr>resp_ok = True, resp_status_code = 204, resp_text = ''null'',
                       resp_json = Some PNone\<rparr>)
          (PStr ''f3cc7b32-3c92-11e4-baad-164230d1df67'') []) = Inr PNone"
    using t [where transport = "\<lambda>req. Inr \<lparr>resp_ok = True, resp_status_code = 204,
        resp_text = ''null'', resp_json = Some PNone\<rparr>", OF refl]
    by simp
  have b: "fst (delete_conversation \<lparr>app_uuid = ''app'', bearer_token = ''token''\<rparr>
          (\<lambda>req. Inr \<lparr>resp_ok = True, resp_status_code = 204, resp_text = '''',
                       resp_json = None\<rparr>)
          (PStr ''f3cc7b32-3c92-11e4-baad-164230d1df67'') []) = Inl ValueError"
    using t [where transport = "\<lambda>req. Inr \<lparr>resp_ok = True, resp_status_code = 204,
        resp_text = '''', resp_json = None\<rparr>", OF refl]
    by simp
  from a b show ?thesis by (rule conjI)
qed

end
